theory Spec2Isabelle
  imports Main
begin

section \<open>JavaScript values\<close>

text \<open>
  The values that flow through \<^verbatim>\<open>lib/Sequerizer.js\<close>: arguments of the builder
  methods, rows and results of the driver, and the fields of the builder. A value that
  a caller or the driver supplies is plain data: an object is the list of its own
  properties in insertion order, keys distinct, with the prototype every object
  literal has. The two objects that the builder itself owns and assigns to, its
  conditions and its options, are modelled with their prototype (see \<open>object\<close>
  below), since an assignment to the key \<^verbatim>\<open>__proto__\<close> replaces it.

  The code never computes with a number: it tests whether it is truthy and prints it
  in a template literal. A number is given by these two observations, so that every
  double, with the text JavaScript prints for it, is a value. Symbols, accessors and
  user-defined conversion methods are outside the model, and values have no identity:
  a caller does not pass the builder's own objects back to it.
\<close>

datatype jsval =
    JUndefined
  | JNull
  | JBool bool
  | JNum bool string
  | JBigInt int
  | JStr string
  | JFun string
  | JArr "jsval list"
  | JObj "(string \<times> jsval) list"

type_synonym obj = "(string \<times> jsval) list"

text \<open>The \<^verbatim>\<open>typeof\<close> operator.\<close>

fun typeof :: "jsval \<Rightarrow> string" where
  "typeof JUndefined = ''undefined''"
| "typeof JNull = ''object''"
| "typeof (JBool _) = ''boolean''"
| "typeof (JNum _ _) = ''number''"
| "typeof (JBigInt _) = ''bigint''"
| "typeof (JStr _) = ''string''"
| "typeof (JFun _) = ''function''"
| "typeof (JArr _) = ''object''"
| "typeof (JObj _) = ''object''"

text \<open>Truthiness, as \<^verbatim>\<open>!x\<close> and \<^verbatim>\<open>a && b\<close> test it. The first component of a
  number says that it is neither a zero nor NaN.\<close>

fun truthy :: "jsval \<Rightarrow> bool" where
  "truthy JUndefined = False"
| "truthy JNull = False"
| "truthy (JBool b) = b"
| "truthy (JNum nonzero _) = nonzero"
| "truthy (JBigInt n) = (n \<noteq> 0)"
| "truthy (JStr s) = (s \<noteq> [])"
| "truthy (JFun _) = True"
| "truthy (JArr _) = True"
| "truthy (JObj _) = True"

text \<open>A default parameter \<^verbatim>\<open>(x = d)\<close> takes its default when the argument is undefined.\<close>

definition dflt :: "jsval \<Rightarrow> jsval \<Rightarrow> jsval" where
  "dflt d x = (if x = JUndefined then d else x)"

subsection \<open>Own properties\<close>

text \<open>What the built-in \<^verbatim>\<open>Object.prototype.hasOwnProperty\<close> answers, the value of
  an own property, and the definition of an own data property: a key that is present
  keeps its place, a new key goes to the end.\<close>

fun hasOwnProperty :: "obj \<Rightarrow> string \<Rightarrow> bool" where
  "hasOwnProperty [] k = False"
| "hasOwnProperty ((k', v) # ps) k = (if k' = k then True else hasOwnProperty ps k)"

fun get_prop :: "obj \<Rightarrow> string \<Rightarrow> jsval option" where
  "get_prop [] k = None"
| "get_prop ((k', v) # ps) k = (if k' = k then Some v else get_prop ps k)"

fun set_prop :: "string \<Rightarrow> jsval \<Rightarrow> obj \<Rightarrow> obj" where
  "set_prop k v [] = [(k, v)]"
| "set_prop k v ((k', v') # ps) =
     (if k' = k then (k, v) # ps else (k', v') # set_prop k v ps)"

text \<open>Decimal digits of an array index and of an integer.\<close>

fun digits :: "nat \<Rightarrow> string" where
  "digits n =
     (if n < 10 then [''0123456789'' ! n]
      else digits (n div 10) @ [''0123456789'' ! (n mod 10)])"

declare digits.simps [simp del]

definition int_text :: "int \<Rightarrow> string" where
  "int_text i = (if i < 0 then ''-'' @ digits (nat (- i)) else digits (nat i))"

text \<open>The number that is the integer \<open>n\<close>, for \<open>n\<close> of fewer than 22 digits that a
  double holds exactly: JavaScript prints these in full.\<close>

definition num :: "int \<Rightarrow> jsval" where
  "num n = JNum (n \<noteq> 0) (int_text n)"

text \<open>The own enumerable properties that \<^verbatim>\<open>Object.assign\<close> reads from a source:
  none of null and undefined, the indices of an array, the properties of an object.\<close>

fun index_from :: "nat \<Rightarrow> jsval list \<Rightarrow> obj" where
  "index_from i [] = []"
| "index_from i (x # xs) = (digits i, x) # index_from (Suc i) xs"

fun own_entries :: "jsval \<Rightarrow> obj" where
  "own_entries (JObj ps) = ps"
| "own_entries (JArr xs) = index_from 0 xs"
| "own_entries _ = []"

text \<open>An object literal with computed keys, \<^verbatim>\<open>{[k1]: v1, [k2]: v2, ...}\<close>, defines
  its properties from left to right on a fresh object; every key, \<^verbatim>\<open>__proto__\<close>
  too, becomes an own property.\<close>

fun define_entries :: "obj \<Rightarrow> obj \<Rightarrow> obj" where
  "define_entries target [] = target"
| "define_entries target ((k, v) # ps) = define_entries (set_prop k v target) ps"

definition object_literal :: "obj \<Rightarrow> obj" where
  "object_literal ps = define_entries [] ps"

subsection \<open>Text of a value inside a template literal\<close>

fun join_comma :: "string list \<Rightarrow> string" where
  "join_comma [] = []"
| "join_comma [s] = s"
| "join_comma (s # t # ts) = s @ '','' @ join_comma (t # ts)"

fun ToString :: "jsval \<Rightarrow> string" where
  "ToString JUndefined = ''undefined''"
| "ToString JNull = ''null''"
| "ToString (JBool b) = (if b then ''true'' else ''false'')"
| "ToString (JNum _ text) = text"
| "ToString (JBigInt n) = int_text n"
| "ToString (JStr s) = s"
| "ToString (JFun src) = src"
| "ToString (JArr xs) =
     join_comma (map (\<lambda>x. if x = JNull \<or> x = JUndefined then [] else ToString x) xs)"
| "ToString (JObj _) = ''[object Object]''"

definition quoted :: "string \<Rightarrow> string" where
  "quoted s = [CHR 0x27] @ s @ [CHR 0x27]"

section \<open>Errors\<close>

text \<open>
  The classes of \<^verbatim>\<open>lib/errors\<close> and the built-in ones the code can raise. Every
  class of \<^verbatim>\<open>lib/errors\<close> extends \<^verbatim>\<open>ModelError\<close> directly, so
  \<^verbatim>\<open>e instanceof NotFoundError\<close> holds of that class alone. \<open>Foreign\<close> is any
  other class, such as the driver's own. The messages of the built-in errors are those
  of V8.
\<close>

datatype err_class =
    Error
  | TypeError
  | ReferenceError
  | ModelError
  | CreateError
  | ReadError
  | NotFoundError
  | UpdateError
  | DeleteError
  | Foreign string

datatype js_error = JsError (cls: err_class) (message: string)

definition instanceof :: "js_error \<Rightarrow> err_class \<Rightarrow> bool" where
  "instanceof e c = (cls e = c)"

type_synonym 'a result = "js_error + 'a"

text \<open>Statements in sequence, and \<^verbatim>\<open>(await m.first(...)).second(...)\<close>: when the
  first raises, the second is not evaluated.\<close>

definition and_then ::
  "'a result \<times> 's \<Rightarrow> ('s \<Rightarrow> 'b result \<times> 's) \<Rightarrow> 'b result \<times> 's" where
  "and_then r f = (case r of (Inl e, s) \<Rightarrow> (Inl e, s) | (Inr _, s) \<Rightarrow> f s)"

text \<open>\<^verbatim>\<open>try { ... } catch (error) { throw h(error) }\<close>: every \<^verbatim>\<open>catch\<close> of the class
  throws again, the error it caught or a new one.\<close>

definition try_catch ::
  "'a result \<times> 's \<Rightarrow> ('s \<Rightarrow> js_error \<Rightarrow> js_error) \<Rightarrow> 'a result \<times> 's" where
  "try_catch r h = (case r of (Inl e, s) \<Rightarrow> (Inl (h s e), s) | (Inr v, s) \<Rightarrow> (Inr v, s))"

section \<open>The driver\<close>

text \<open>
  The table handle is the Sequelize model the constructor receives. A call on it either
  throws at once, or returns a value or a promise; the promise is fulfilled or rejected.
  Under \<^verbatim>\<open>await\<close> inside \<^verbatim>\<open>try\<close> a throw and a rejection are caught alike; without
  \<^verbatim>\<open>await\<close> only the throw is. Each call reads and changes the database \<open>'db\<close>. An
  object is handed to the driver as its own properties.
\<close>

datatype 'a call = Returned 'a | Rejected js_error | Thrown js_error

record 'db table =
  t_name :: string
  t_create :: "jsval \<Rightarrow> 'db \<Rightarrow> jsval call \<times> 'db"
  t_bulkCreate :: "jsval \<Rightarrow> 'db \<Rightarrow> jsval call \<times> 'db"
  t_findAll :: "jsval \<Rightarrow> 'db \<Rightarrow> jsval call \<times> 'db"
  t_findByPk :: "jsval \<Rightarrow> 'db \<Rightarrow> jsval call \<times> 'db"
  t_findOne :: "jsval \<Rightarrow> 'db \<Rightarrow> jsval call \<times> 'db"
  t_findOrCreate :: "jsval \<Rightarrow> 'db \<Rightarrow> (jsval \<times> jsval) call \<times> 'db"
  t_update :: "jsval \<Rightarrow> jsval \<Rightarrow> 'db \<Rightarrow> jsval call \<times> 'db"
  t_destroy :: "jsval \<Rightarrow> 'db \<Rightarrow> jsval call \<times> 'db"

text \<open>What \<^verbatim>\<open>await\<close> inside \<^verbatim>\<open>try\<close> sees of a call.\<close>

fun awaited :: "'a call \<Rightarrow> 'a result" where
  "awaited (Returned v) = Inr v"
| "awaited (Rejected e) = Inl e"
| "awaited (Thrown e) = Inl e"

section \<open>The builder\<close>

text \<open>
  An object of the builder: its prototype and its own properties. The prototype is
  \<^verbatim>\<open>Object.prototype\<close>, as \<^verbatim>\<open>{}\<close> has it, until an assignment to \<^verbatim>\<open>__proto__\<close>
  sets it to null or to a value that is an object, an array or a function.
\<close>

datatype proto = ObjectPrototype | SetTo jsval

datatype object = Object (prototype: proto) (own: obj)

definition empty_object :: object where
  "empty_object = Object ObjectPrototype []"

text \<open>
  The fields of a \<^verbatim>\<open>Sequerizer\<close> instance, with the database behind the table
  handle. \<open>orders\<close> and \<open>attributes\<close> start as empty arrays;
  \<^verbatim>\<open>setOrders\<close> and \<^verbatim>\<open>needColumns\<close> store what they are given.
\<close>

record 'db model =
  table :: "'db table"
  ident :: string
  conditions :: object
  inspectValue :: jsval
  orders :: jsval
  attributes :: jsval
  options :: object
  throwError :: jsval
  limitValue :: jsval
  offsetValue :: jsval
  db :: 'db

text \<open>
  What the language leaves to values the model does not look into:
  \<^item> \<open>rt_call src args m\<close>: the call of the function with source \<open>src\<close>, as a method of
    the options, on the builder \<open>m\<close>: what it returns or throws, and the builder after it;
  \<^item> \<open>rt_length_positive x\<close>: \<^verbatim>\<open>x.length > 0\<close> for \<open>x\<close> a function, or an object with
    an own \<^verbatim>\<open>length\<close>;
  \<^item> \<open>rt_readonly src k\<close>: the function with source \<open>src\<close>, as a prototype, has a
    property \<open>k\<close> that cannot be assigned to (as \<^verbatim>\<open>name\<close> and \<^verbatim>\<open>length\<close>).
\<close>

record 'db runtime =
  rt_call :: "string \<Rightarrow> jsval list \<Rightarrow> 'db model \<Rightarrow> jsval result \<times> 'db model"
  rt_length_positive :: "jsval \<Rightarrow> bool"
  rt_readonly :: "string \<Rightarrow> string \<Rightarrow> bool"

definition initial :: "'db table \<Rightarrow> 'db \<Rightarrow> 'db model" where
  "initial tb d =
     \<lparr>table = tb, ident = t_name tb, conditions = empty_object, inspectValue = JNull,
      orders = JArr [], attributes = JArr [], options = empty_object,
      throwError = JBool False, limitValue = JNull, offsetValue = JNull, db = d\<rparr>"

text \<open>The constructor: \<^verbatim>\<open>table == undefined\<close> holds of undefined and of null, the
  argument \<open>None\<close> here.\<close>

definition Sequerizer :: "'db table option \<Rightarrow> 'db \<Rightarrow> 'db model result" where
  "Sequerizer t d =
     (case t of
        None \<Rightarrow> Inl (JsError ModelError ''Sequelize model table must be define in constructor'')
      | Some tb \<Rightarrow> Inr (initial tb d))"

subsection \<open>Assignment and method lookup on an object of the builder\<close>

text \<open>
  What the prototype chain holds for a key that is not an own property: the setter of
  \<^verbatim>\<open>__proto__\<close>, which \<^verbatim>\<open>Object.prototype\<close> defines; a property that cannot be
  written; or nothing, or a writable data property. The own properties of a value that
  has become the prototype are writable data; behind it stands \<^verbatim>\<open>Object.prototype\<close>.
\<close>

datatype slot = Setter | ReadOnly | Free

fun inherited :: "'db runtime \<Rightarrow> proto \<Rightarrow> string \<Rightarrow> slot" where
  "inherited rt ObjectPrototype k = (if k = ''__proto__'' then Setter else Free)"
| "inherited rt (SetTo JNull) k = Free"
| "inherited rt (SetTo (JObj qs)) k =
     (if hasOwnProperty qs k then Free else if k = ''__proto__'' then Setter else Free)"
| "inherited rt (SetTo (JFun src)) k =
     (if k = ''__proto__'' then Setter else if rt_readonly rt src k then ReadOnly else Free)"
| "inherited rt (SetTo _) k = (if k = ''__proto__'' then Setter else Free)"

text \<open>
  \<^verbatim>\<open>o[k] = v\<close> in the strict code of a class body. An own property takes the value.
  Otherwise the assignment makes an own property, unless the chain has a setter or a
  property that cannot be written: the setter of \<^verbatim>\<open>__proto__\<close> replaces the prototype
  when \<open>v\<close> is an object or null and does nothing else, and no own property is made.
\<close>

definition assign :: "'db runtime \<Rightarrow> string \<Rightarrow> jsval \<Rightarrow> object \<Rightarrow> object result" where
  "assign rt k v ob =
     (if hasOwnProperty (own ob) k then Inr (Object (prototype ob) (set_prop k v (own ob)))
      else case inherited rt (prototype ob) k of
             Free \<Rightarrow> Inr (Object (prototype ob) (set_prop k v (own ob)))
           | ReadOnly \<Rightarrow>
               Inl (JsError TypeError
                      (''Cannot assign to read only property '' @ quoted k @ '' of object ''
                       @ quoted ''#<Object>''))
           | Setter \<Rightarrow>
               Inr (if typeof v = ''object'' \<or> typeof v = ''function''
                    then Object (SetTo v) (own ob) else ob))"

text \<open>\<^verbatim>\<open>Object.assign(target, source)\<close> assigns the own properties of the source in
  order, and stops at an assignment that raises.\<close>

fun assign_props :: "'db runtime \<Rightarrow> obj \<Rightarrow> object \<Rightarrow> unit result \<times> object" where
  "assign_props rt [] ob = (Inr (), ob)"
| "assign_props rt ((k, v) # ps) ob =
     (case assign rt k v ob of
        Inl e \<Rightarrow> (Inl e, ob)
      | Inr ob1 \<Rightarrow> assign_props rt ps ob1)"

definition Object_assign :: "'db runtime \<Rightarrow> object \<Rightarrow> jsval \<Rightarrow> unit result \<times> object" where
  "Object_assign rt target source = assign_props rt (own_entries source) target"

text \<open>
  What \<^verbatim>\<open>o.hasOwnProperty\<close> evaluates to: the built-in method of
  \<^verbatim>\<open>Object.prototype\<close>, or another value, when \<open>o\<close> or a value that has become its
  prototype has an own property of that name, or undefined under the null prototype.
\<close>

datatype resolved = Builtin | Member jsval

definition hasOwnProperty_method :: "object \<Rightarrow> resolved" where
  "hasOwnProperty_method ob =
     (case get_prop (own ob) ''hasOwnProperty'' of
        Some v \<Rightarrow> Member v
      | None \<Rightarrow>
          (case prototype ob of
             ObjectPrototype \<Rightarrow> Builtin
           | SetTo JNull \<Rightarrow> Member JUndefined
           | SetTo (JObj qs) \<Rightarrow>
               (case get_prop qs ''hasOwnProperty'' of Some v \<Rightarrow> Member v | None \<Rightarrow> Builtin)
           | SetTo _ \<Rightarrow> Builtin))"

text \<open>\<^verbatim>\<open>x.length > 0\<close>. Null and undefined have no properties; a boolean, a number
  and an object without \<^verbatim>\<open>length\<close> give undefined, which is not greater than 0.\<close>

definition length_positive :: "'db runtime \<Rightarrow> jsval \<Rightarrow> bool result" where
  "length_positive rt x =
     (case x of
        JArr xs \<Rightarrow> Inr (xs \<noteq> [])
      | JStr s \<Rightarrow> Inr (s \<noteq> [])
      | JNull \<Rightarrow>
          Inl (JsError TypeError
                 (''Cannot read properties of null (reading '' @ quoted ''length'' @ '')''))
      | JUndefined \<Rightarrow>
          Inl (JsError TypeError
                 (''Cannot read properties of undefined (reading '' @ quoted ''length'' @ '')''))
      | JFun _ \<Rightarrow> Inr (rt_length_positive rt x)
      | JObj ps \<Rightarrow> Inr (if hasOwnProperty ps ''length'' then rt_length_positive rt x else False)
      | _ \<Rightarrow> Inr False)"

subsection \<open>Validator utility\<close>

definition inspect :: "jsval \<Rightarrow> 'db model \<Rightarrow> 'db model" where
  "inspect data b = b\<lparr>inspectValue := data\<rparr>"

definition knownTypes :: "string list" where
  "knownTypes =
     [''undefined'', ''object'', ''boolean'', ''number'', ''bigint'', ''string'', ''symbol'',
      ''function'']"

definition mustBeAn :: "string \<Rightarrow> string \<Rightarrow> 'db model \<Rightarrow> unit result" where
  "mustBeAn ty messageIfError b =
     (if ty \<notin> set knownTypes then Inl (JsError Error ''Unknown type'')
      else if typeof (inspectValue b) \<noteq> ty then Inl (JsError TypeError messageIfError)
      else Inr ())"

subsection \<open>Clearing utilities\<close>

definition resetThrowError :: "'db model \<Rightarrow> 'db model" where
  "resetThrowError b = b\<lparr>throwError := JBool False\<rparr>"

definition clear :: "'db model \<Rightarrow> 'db model" where
  "clear b =
     b\<lparr>conditions := empty_object, options := empty_object, attributes := JArr [],
       orders := JArr [], throwError := JBool False, limitValue := JNull,
       offsetValue := JNull\<rparr>"

subsection \<open>Options builder utilities\<close>

text \<open>A builder method returns the builder itself, the second component here, or
  raises.\<close>

definition where' ::
  "'db runtime \<Rightarrow> jsval \<Rightarrow> jsval \<Rightarrow> 'db model \<Rightarrow> unit result \<times> 'db model" where
  "where' rt columnOrConditions v b =
     (if typeof columnOrConditions = ''string''
      then (case assign rt (ToString columnOrConditions) v (conditions b) of
              Inl e \<Rightarrow> (Inl e, b)
            | Inr ob \<Rightarrow> (Inr (), b\<lparr>conditions := ob\<rparr>))
      else if typeof columnOrConditions = ''object''
      then (case Object_assign rt (conditions b) columnOrConditions of
              (r, ob) \<Rightarrow> (r, b\<lparr>conditions := ob\<rparr>))
      else (Inr (), b))"

definition setOrders :: "jsval \<Rightarrow> 'db model \<Rightarrow> unit result \<times> 'db model" where
  "setOrders os b = (Inr (), b\<lparr>orders := os\<rparr>)"

definition needColumns :: "jsval \<Rightarrow> 'db model \<Rightarrow> unit result \<times> 'db model" where
  "needColumns columns b =
     (let b1 = inspect columns b in
      case mustBeAn ''object'' ''columns in needColumns method must be an array'' b1 of
        Inl e \<Rightarrow> (Inl e, b1)
      | Inr _ \<Rightarrow> (Inr (), b1\<lparr>attributes := columns\<rparr>))"

text \<open>\<^verbatim>\<open>this.options[k] = v\<close>.\<close>

definition assign_option ::
  "'db runtime \<Rightarrow> string \<Rightarrow> jsval \<Rightarrow> 'db model \<Rightarrow> unit result \<times> 'db model" where
  "assign_option rt k v b =
     (case assign rt k v (options b) of
        Inl e \<Rightarrow> (Inl e, b)
      | Inr ob \<Rightarrow> (Inr (), b\<lparr>options := ob\<rparr>))"

text \<open>\<^verbatim>\<open>!this.options.hasOwnProperty(k)\<close>: the method is looked up on the overlay
  itself, and what is found there is called.\<close>

definition lacks_option ::
  "'db runtime \<Rightarrow> string \<Rightarrow> 'db model \<Rightarrow> bool result \<times> 'db model" where
  "lacks_option rt k b =
     (case hasOwnProperty_method (options b) of
        Builtin \<Rightarrow> (Inr (\<not> hasOwnProperty (own (options b)) k), b)
      | Member (JFun src) \<Rightarrow>
          (case rt_call rt src [JStr k] b of
             (Inl e, b1) \<Rightarrow> (Inl e, b1)
           | (Inr r, b1) \<Rightarrow> (Inr (\<not> truthy r), b1))
      | Member _ \<Rightarrow>
          (Inl (JsError TypeError ''this.options.hasOwnProperty is not a function''), b))"

text \<open>One statement of \<^verbatim>\<open>buildOptions\<close>:
  \<^verbatim>\<open>if (guard && !this.options.hasOwnProperty(k)) this.options[k] = v\<close>.\<close>

definition unless_defined ::
  "'db runtime \<Rightarrow> ('db model \<Rightarrow> bool result) \<Rightarrow> string \<Rightarrow> ('db model \<Rightarrow> jsval) \<Rightarrow> 'db model
     \<Rightarrow> unit result \<times> 'db model" where
  "unless_defined rt guard k v b =
     (case guard b of
        Inl e \<Rightarrow> (Inl e, b)
      | Inr g \<Rightarrow>
          if \<not> g then (Inr (), b)
          else (case lacks_option rt k b of
                  (Inl e, b1) \<Rightarrow> (Inl e, b1)
                | (Inr absent, b1) \<Rightarrow>
                    if absent then assign_option rt k (v b1) b1 else (Inr (), b1)))"

definition buildOptions :: "'db runtime \<Rightarrow> 'db model \<Rightarrow> unit result \<times> 'db model" where
  "buildOptions rt b =
     and_then (unless_defined rt (\<lambda>m. Inr True) ''where'' (\<lambda>m. JObj (own (conditions m))) b)
       (\<lambda>b1. and_then
          (unless_defined rt (\<lambda>m. length_positive rt (attributes m)) ''attributes'' attributes b1)
       (\<lambda>b2. and_then
          (unless_defined rt (\<lambda>m. length_positive rt (orders m)) ''order'' orders b2)
       (\<lambda>b3. and_then
          (unless_defined rt (\<lambda>m. Inr (limitValue m \<noteq> JNull)) ''limit'' limitValue b3)
       (\<lambda>b4.
          unless_defined rt (\<lambda>m. Inr (offsetValue m \<noteq> JNull)) ''offset'' offsetValue b4))))"

definition option' ::
  "'db runtime \<Rightarrow> jsval \<Rightarrow> jsval \<Rightarrow> 'db model \<Rightarrow> unit result \<times> 'db model" where
  "option' rt keyOrOptions v b =
     (if typeof keyOrOptions = ''string''
      then assign_option rt (ToString keyOrOptions) v b
      else if typeof keyOrOptions = ''object''
      then (case Object_assign rt (options b) keyOrOptions of
              (r, ob) \<Rightarrow> (r, b\<lparr>options := ob\<rparr>))
      else (Inr (), b))"

definition withError :: "jsval \<Rightarrow> 'db model \<Rightarrow> 'db model" where
  "withError v b = b\<lparr>throwError := dflt (JBool True) v\<rparr>"

subsection \<open>Middleware\<close>

text \<open>
  The callback receives the builder, so it may use and change it and the database
  before it answers. \<^verbatim>\<open>verify\<close> has no \<^verbatim>\<open>try\<close>: a failure of the callback leaves
  it as it is.
\<close>

definition verify ::
  "('db model \<Rightarrow> jsval call \<times> 'db model) \<Rightarrow> 'db model \<Rightarrow> unit result \<times> 'db model" where
  "verify callback b =
     (case callback b of (c, b1) \<Rightarrow>
        (case awaited c of
           Inl e \<Rightarrow> (Inl e, b1)
         | Inr verified \<Rightarrow>
             (let b2 = inspect verified b1 in
              case mustBeAn ''boolean'' ''verify callback must return boolean value'' b2 of
                Inl e \<Rightarrow> (Inl e, b2)
              | Inr _ \<Rightarrow>
                  if \<not> truthy verified
                  then (Inl (JsError ModelError ''Unverified state occured''), b2)
                  else (Inr (), b2))))"

text \<open>One call of the driver, on the database of the builder.\<close>

definition driver :: "('db \<Rightarrow> 'a call \<times> 'db) \<Rightarrow> 'db model \<Rightarrow> 'a call \<times> 'db model" where
  "driver f b = (case f (db b) of (c, d) \<Rightarrow> (c, b\<lparr>db := d\<rparr>))"

section \<open>CRUD\<close>

text \<open>
  A terminal operation is an \<^verbatim>\<open>async\<close> method: it answers with the value its promise
  is fulfilled with (\<open>Inr\<close>) or the error it is rejected with (\<open>Inl\<close>), and the
  builder as it is left.
\<close>

definition create :: "jsval \<Rightarrow> 'db model \<Rightarrow> jsval result \<times> 'db model" where
  "create data b =
     (let b1 = inspect data b in
      case mustBeAn ''object'' ''Inserted data must have type of object'' b1 of
        Inl e \<Rightarrow> (Inl e, b1)
      | Inr _ \<Rightarrow>
          (case driver (t_create (table b1) data) b1 of (c, b2) \<Rightarrow>
             (case awaited c of
                Inr newItem \<Rightarrow> (Inr newItem, b2)
              | Inl error \<Rightarrow>
                  (Inl (JsError CreateError
                     (''Error creating '' @ ident b2 @ '': '' @ message error)), b2))))"

definition insert' :: "jsval \<Rightarrow> 'db model \<Rightarrow> jsval result \<times> 'db model" where
  "insert' data b =
     (let b1 = inspect data b in
      case mustBeAn ''object'' ''Inserted data must be an object or array of objects'' b1 of
        Inl e \<Rightarrow> (Inl e, b1)
      | Inr _ \<Rightarrow>
          (case driver (case data of JArr _ \<Rightarrow> t_bulkCreate (table b1) data
                                   | _ \<Rightarrow> t_create (table b1) data) b1 of (c, b2) \<Rightarrow>
             (case awaited c of
                Inr newItem \<Rightarrow> (Inr newItem, b2)
              | Inl error \<Rightarrow>
                  (Inl (JsError CreateError
                     (''Error inserting into '' @ ident b2 @ '': '' @ message error)), b2))))"

definition get ::
  "'db runtime \<Rightarrow> jsval \<Rightarrow> jsval \<Rightarrow> 'db model \<Rightarrow> jsval result \<times> 'db model" where
  "get rt columns0 conditions0 b =
     (let columns = dflt (JArr []) columns0; cond = dflt JNull conditions0;
          b1 = inspect columns b in
      case mustBeAn ''object'' ''columns in whereIn method must be an array'' b1 of
        Inl e \<Rightarrow> (Inl e, b1)
      | Inr _ \<Rightarrow>
          try_catch
            (and_then (buildOptions rt b1)
               (\<lambda>b2. and_then
                  (if typeof cond = ''object'' \<and> cond \<noteq> JNull
                   then assign_option rt ''where'' cond b2 else (Inr (), b2))
               (\<lambda>b3. and_then
                  (case length_positive rt columns of
                     Inl e \<Rightarrow> (Inl e, b3)
                   | Inr g \<Rightarrow>
                       if g then assign_option rt ''attributes'' columns b3 else (Inr (), b3))
               (\<lambda>b4.
                  case driver (t_findAll (table b4) (JObj (own (options b4)))) b4 of
                    (c, b5) \<Rightarrow>
                      (case awaited c of
                         Inr items \<Rightarrow> (Inr items, clear b5)
                       | Inl error \<Rightarrow> (Inl error, b5))))))
            (\<lambda>s error. JsError ReadError (''Fail fetching data: '' @ message error)))"

text \<open>\<^verbatim>\<open>JSON.stringify\<close> belongs to the runtime: the text it gives, or the error
  it throws, is the parameter \<open>stringify\<close>.\<close>

definition getOrCreate_catch :: "'db model \<Rightarrow> js_error \<Rightarrow> js_error" where
  "getOrCreate_catch b error =
     (if instanceof error CreateError then error
      else JsError ModelError
             (''Error creating or finding '' @ ident b @ '': '' @ message error))"

definition getOrCreate ::
  "(jsval \<Rightarrow> string result) \<Rightarrow> jsval \<Rightarrow> 'db model \<Rightarrow> jsval result \<times> 'db model" where
  "getOrCreate stringify data b =
     (let b1 = inspect data b in
      case mustBeAn ''object'' ''Inserted data must have type of object'' b1 of
        Inl e \<Rightarrow> (Inl e, b1)
      | Inr _ \<Rightarrow>
          (case driver (t_findOrCreate (table b1) (JObj [(''where'', data)])) b1 of (c, b2) \<Rightarrow>
             (case awaited c of
                Inl error \<Rightarrow> (Inl (getOrCreate_catch b2 error), b2)
              | Inr (item, created) \<Rightarrow>
                  if \<not> truthy created \<and> truthy (throwError b2)
                  then (case stringify data of
                          Inl error \<Rightarrow> (Inl (getOrCreate_catch b2 error), b2)
                        | Inr text \<Rightarrow>
                            (Inl (getOrCreate_catch b2
                               (JsError CreateError
                                  (ident b2 @ '' already exists with data '' @ text))), b2))
                  else (Inr item, resetThrowError b2))))"

text \<open>\<^verbatim>\<open>withOptions\<close> is a fresh object: its two assignments make own properties.\<close>

definition getWhere ::
  "'db runtime \<Rightarrow> jsval \<Rightarrow> 'db model \<Rightarrow> jsval result \<times> 'db model" where
  "getWhere rt conditions0 b =
     (let cond = dflt JNull conditions0;
          w1 = set_prop ''where'' (if cond \<noteq> JNull then cond else JObj (own (conditions b))) []
      in try_catch
           (case length_positive rt (attributes b) of
              Inl e \<Rightarrow> (Inl e, b)
            | Inr g \<Rightarrow>
                (let withOptions = (if g then set_prop ''attributes'' (attributes b) w1 else w1)
                 in case driver (t_findAll (table b) (JObj withOptions)) b of
                      (c, b1) \<Rightarrow>
                        (case awaited c of
                           Inr items \<Rightarrow> (Inr items, clear b1)
                         | Inl error \<Rightarrow> (Inl error, b1))))
           (\<lambda>s error. JsError ReadError (''Fail fetching data: '' @ message error)))"

definition find_catch :: "jsval \<Rightarrow> 'db model \<Rightarrow> js_error \<Rightarrow> js_error" where
  "find_catch id' b error =
     (if instanceof error NotFoundError then error
      else JsError ReadError
             (''Error finding '' @ ident b @ '' with id '' @ ToString id' @ '': ''
              @ message error))"

definition find' :: "jsval \<Rightarrow> 'db model \<Rightarrow> jsval result \<times> 'db model" where
  "find' id' b =
     (case driver (t_findByPk (table b) id') b of (c, b1) \<Rightarrow>
        (case awaited c of
           Inl error \<Rightarrow> (Inl (find_catch id' b1 error), b1)
         | Inr item \<Rightarrow>
             if \<not> truthy item \<and> truthy (throwError b1)
             then (Inl (find_catch id' b1
                          (JsError NotFoundError
                             (ident b1 @ '' not found with id '' @ ToString id'))), b1)
             else (Inr item, resetThrowError b1)))"

text \<open>
  The \<^verbatim>\<open>catch\<close> of \<^verbatim>\<open>first\<close> builds its message from \<^verbatim>\<open>id\<close>, which is neither a
  parameter of \<^verbatim>\<open>first\<close> nor a binding of the module: evaluating the template
  literal raises a ReferenceError, and no ReadError is made.
\<close>

definition first_catch :: "js_error \<Rightarrow> js_error" where
  "first_catch error =
     (if instanceof error NotFoundError then error
      else JsError ReferenceError ''id is not defined'')"

definition first :: "'db runtime \<Rightarrow> 'db model \<Rightarrow> jsval result \<times> 'db model" where
  "first rt b =
     try_catch
       (and_then (buildOptions rt b)
          (\<lambda>b1. case driver (t_findOne (table b1) (JObj (own (options b1)))) b1 of
                   (c, b2) \<Rightarrow>
                     (case awaited c of
                        Inl error \<Rightarrow> (Inl error, b2)
                      | Inr item \<Rightarrow>
                          if \<not> truthy item \<and> truthy (throwError b2)
                          then (Inl (JsError NotFoundError (ident b2 @ '' not found'')), b2)
                          else (Inr item, clear b2))))
       (\<lambda>s. first_catch)"

definition exists ::
  "'db runtime \<Rightarrow> jsval \<Rightarrow> 'db model \<Rightarrow> jsval result \<times> 'db model" where
  "exists rt conditions0 b =
     (let cond = dflt JNull conditions0; b1 = inspect cond b in
      case mustBeAn ''object'' ''conditions in exists method must be an object'' b1 of
        Inl e \<Rightarrow> (Inl e, b1)
      | Inr _ \<Rightarrow>
          try_catch
            (and_then (buildOptions rt b1)
               (\<lambda>b2. and_then
                  (if cond \<noteq> JNull then assign_option rt ''where'' cond b2 else (Inr (), b2))
               (\<lambda>b3.
                  case driver (t_findOne (table b3) (JObj (own (options b3)))) b3 of
                    (c, b4) \<Rightarrow>
                      (case awaited c of
                         Inr item \<Rightarrow> (Inr (JBool (item \<noteq> JNull)), clear b4)
                       | Inl error \<Rightarrow> (Inl error, b4)))))
            (\<lambda>s error. JsError ReadError (''Error in exists method: '' @ message error)))"

text \<open>
  \<^verbatim>\<open>update\<close> and \<^verbatim>\<open>delete\<close> build the options before their \<^verbatim>\<open>try\<close>: what
  that raises is not caught.

  \<^verbatim>\<open>update\<close> does not await the driver: only a throw of the call itself reaches its
  \<^verbatim>\<open>catch\<close>, and a promise is handed on after \<^verbatim>\<open>clear\<close>, so that a rejection is
  the rejection of \<^verbatim>\<open>update\<close>. The \<^verbatim>\<open>catch\<close> calls the class \<^verbatim>\<open>UpdateError\<close>
  without \<^verbatim>\<open>new\<close>, which raises a TypeError.
\<close>

definition update_catch :: "js_error \<Rightarrow> js_error" where
  "update_catch error =
     JsError TypeError
       (''Class constructor UpdateError cannot be invoked without '' @ quoted ''new'')"

definition update ::
  "'db runtime \<Rightarrow> jsval \<Rightarrow> jsval \<Rightarrow> 'db model \<Rightarrow> jsval result \<times> 'db model" where
  "update rt payload conditions0 b =
     (let cond = dflt JNull conditions0 in
      and_then (buildOptions rt b)
        (\<lambda>b1. and_then
           (if cond \<noteq> JNull \<and> typeof cond = ''object''
            then assign_option rt ''where'' cond b1 else (Inr (), b1))
        (\<lambda>b2.
           case driver (t_update (table b2) payload (JObj (own (options b2)))) b2 of
             (c, b3) \<Rightarrow>
               (case c of
                  Thrown error \<Rightarrow> (Inl (update_catch error), b3)
                | Returned items \<Rightarrow> (Inr items, clear b3)
                | Rejected error \<Rightarrow> (Inl error, clear b3)))))"

definition delete ::
  "'db runtime \<Rightarrow> jsval \<Rightarrow> 'db model \<Rightarrow> jsval result \<times> 'db model" where
  "delete rt conditions0 b =
     (let cond = dflt JNull conditions0 in
      and_then (buildOptions rt b)
        (\<lambda>b1. and_then
           (if cond \<noteq> JNull \<and> typeof cond = ''object''
            then assign_option rt ''where'' cond b1 else (Inr (), b1))
        (\<lambda>b2.
           try_catch
             (case driver (t_destroy (table b2) (JObj (own (options b2)))) b2 of
                (c, b3) \<Rightarrow>
                  (case awaited c of
                     Inr res \<Rightarrow> (Inr res, clear b3)
                   | Inl error \<Rightarrow> (Inl error, b3)))
             (\<lambda>s error.
                JsError DeleteError
                  (''Error deleting from '' @ ident s @ '': '' @ message error)))))"

definition truncate :: "'db model \<Rightarrow> jsval result \<times> 'db model" where
  "truncate b =
     (case driver (t_destroy (table b)
                     (JObj [(''where'', JObj []), (''truncate'', JBool True)])) b of
        (c, b1) \<Rightarrow>
          (case awaited c of
             Inr _ \<Rightarrow> (Inr JUndefined, b1)
           | Inl error \<Rightarrow>
               (Inl (JsError DeleteError
                  (''Error truncating '' @ ident b1 @ '': '' @ message error)), b1)))"

section \<open>Counting rows\<close>

text \<open>
  Modelled from the spec: the \<^verbatim>\<open>count\<close> method, which the tests and the README call
  and \<^verbatim>\<open>lib/Sequerizer.js\<close> does not define. "\<^verbatim>\<open>count(conditions=null)\<close>: returns
  integer count of rows matching conditions (defaults to all rows of the table if none
  given)." The table is the list of its rows at call time; \<open>None\<close> is the null
  default; a row matches when it has every column of the conditions with that value.
\<close>

fun row_matches :: "obj \<Rightarrow> obj \<Rightarrow> bool" where
  "row_matches [] row = True"
| "row_matches ((k, v) # cs) row = (get_prop row k = Some v \<and> row_matches cs row)"

fun count_from :: "int \<Rightarrow> obj \<Rightarrow> obj list \<Rightarrow> int" where
  "count_from n cs [] = n"
| "count_from n cs (row # rows) =
     count_from (if row_matches cs row then n + 1 else n) cs rows"

definition count :: "obj option \<Rightarrow> obj list \<Rightarrow> int" where
  "count conditions0 rows =
     (case conditions0 of None \<Rightarrow> count_from 0 [] rows | Some cs \<Rightarrow> count_from 0 cs rows)"

section \<open>Properties of the builder state\<close>

text \<open>The seven fields that \<^verbatim>\<open>clear\<close> resets, and their default form.\<close>

definition builder_fields ::
  "'db model \<Rightarrow> object \<times> jsval \<times> jsval \<times> object \<times> jsval \<times> jsval \<times> jsval" where
  "builder_fields b =
     (conditions b, attributes b, orders b, options b, limitValue b, offsetValue b,
      throwError b)"

definition default_form :: "'db model \<Rightarrow> bool" where
  "default_form b =
     (builder_fields b =
        (empty_object, JArr [], JArr [], empty_object, JNull, JNull, JBool False))"

text \<open>The call completed without throwing.\<close>

definition completes :: "'a result \<times> 's \<Rightarrow> bool" where
  "completes r = (case fst r of Inr _ \<Rightarrow> True | Inl _ \<Rightarrow> False)"

section \<open>A table and a runtime for the examples\<close>

text \<open>
  A driver that keeps the rows in a list: created rows go to the end, a row is found by
  its \<^verbatim>\<open>id\<close> property, and filters are not looked at. \<open>rejecting\<close> and \<open>throwing\<close>
  are the same table with every read and write failing, by a rejected promise or by a
  throw of the call. No example reaches the runtime.
\<close>

definition mem_table :: "jsval list table" where
  "mem_table =
     \<lparr>t_name = ''users'',
      t_create = (\<lambda>data rows. (Returned data, rows @ [data])),
      t_bulkCreate = (\<lambda>data rows. (Returned data, rows @ (case data of JArr xs \<Rightarrow> xs | _ \<Rightarrow> []))),
      t_findAll = (\<lambda>opts rows. (Returned (JArr rows), rows)),
      t_findByPk = (\<lambda>i rows.
         (Returned (case List.find (\<lambda>r. get_prop (own_entries r) ''id'' = Some i) rows of
                      Some r \<Rightarrow> r | None \<Rightarrow> JNull), rows)),
      t_findOne = (\<lambda>opts rows. (Returned (case rows of [] \<Rightarrow> JNull | r # _ \<Rightarrow> r), rows)),
      t_findOrCreate = (\<lambda>opts rows.
         (case get_prop (own_entries opts) ''where'' of
            None \<Rightarrow> (Rejected (JsError Error ''missing where''), rows)
          | Some data \<Rightarrow>
              if data \<in> set rows then (Returned (data, JBool False), rows)
              else (Returned (data, JBool True), rows @ [data]))),
      t_update = (\<lambda>payload opts rows. (Returned (JArr [num (int (length rows))]), rows)),
      t_destroy = (\<lambda>opts rows. (Returned (num (int (length rows))), []))\<rparr>"

definition rejecting :: "js_error \<Rightarrow> jsval list table" where
  "rejecting e =
     mem_table
       \<lparr>t_findAll := (\<lambda>opts rows. (Rejected e, rows)),
        t_findByPk := (\<lambda>i rows. (Rejected e, rows)),
        t_findOne := (\<lambda>opts rows. (Rejected e, rows)),
        t_update := (\<lambda>payload opts rows. (Rejected e, rows)),
        t_destroy := (\<lambda>opts rows. (Rejected e, rows))\<rparr>"

definition throwing :: "js_error \<Rightarrow> jsval list table" where
  "throwing e =
     mem_table
       \<lparr>t_findAll := (\<lambda>opts rows. (Thrown e, rows)),
        t_findByPk := (\<lambda>i rows. (Thrown e, rows)),
        t_findOne := (\<lambda>opts rows. (Thrown e, rows)),
        t_update := (\<lambda>payload opts rows. (Thrown e, rows)),
        t_destroy := (\<lambda>opts rows. (Thrown e, rows))\<rparr>"

definition plain_runtime :: "'db runtime" where
  "plain_runtime =
     \<lparr>rt_call = (\<lambda>src args m. (Inr JUndefined, m)),
      rt_length_positive = (\<lambda>x. False),
      rt_readonly = (\<lambda>src k. k = ''name'' \<or> k = ''length'')\<rparr>"

definition db_error :: js_error where
  "db_error = JsError (Foreign ''SequelizeDatabaseError'') ''boom''"

text \<open>The callback of the test of \<^verbatim>\<open>verify\<close>:
  \<^verbatim>\<open>async (model) => !(await model.where("phone", "1223").exists())\<close>.\<close>

definition phone_is_free :: "'db model \<Rightarrow> jsval call \<times> 'db model" where
  "phone_is_free m =
     (case and_then (where' plain_runtime (JStr ''phone'') (JStr ''1223'') m)
             (exists plain_runtime JUndefined) of
        (Inl e, m1) \<Rightarrow> (Rejected e, m1)
      | (Inr found, m1) \<Rightarrow> (Returned (JBool (\<not> truthy found)), m1))"

definition user_unique :: jsval where
  "user_unique =
     JObj [(''name'', JStr ''User Unique''), (''phone'', JStr ''1223''),
           (''password'', JStr ''passwordUnique'')]"

text \<open>A builder in the middle of a chain, over a table of one row; the same with a
  limit of 10 and an overlay, of another key or of the limit itself.\<close>

definition busy :: "jsval list model" where
  "busy = snd (where' plain_runtime (JStr ''name'') (JStr ''A'')
                 (initial mem_table [user_unique]))"

definition paged :: "jsval list model" where
  "paged = busy\<lparr>limitValue := num 10,
                options := Object ObjectPrototype [(''group'', JStr ''name'')]\<rparr>"

definition capped :: "jsval list model" where
  "capped = busy\<lparr>limitValue := num 10, options := Object ObjectPrototype [(''limit'', num 1)]\<rparr>"

text \<open>Builders on which \<^verbatim>\<open>buildOptions\<close> raises: after
  \<^verbatim>\<open>option("hasOwnProperty", 1)\<close>, after \<^verbatim>\<open>option("__proto__", null)\<close> and after
  \<^verbatim>\<open>needColumns(null)\<close>.\<close>

definition shadowed :: "jsval list model" where
  "shadowed = snd (option' plain_runtime (JStr ''hasOwnProperty'') (num 1)
                     (initial mem_table []))"

definition bare :: "jsval list model" where
  "bare = snd (option' plain_runtime (JStr ''__proto__'') JNull (initial mem_table []))"

definition no_columns :: "jsval list model" where
  "no_columns = snd (needColumns JNull (initial mem_table []))"

text \<open>One statement of \<^verbatim>\<open>buildOptions\<close>, on the own properties of an overlay that
  has the built-in method: \<open>k\<close> is set to \<open>v\<close> when \<open>c\<close> holds and \<open>k\<close> is absent.\<close>

definition fill :: "bool \<Rightarrow> string \<Rightarrow> jsval \<Rightarrow> obj \<Rightarrow> obj" where
  "fill c k v ps = (if c \<and> \<not> hasOwnProperty ps k then set_prop k v ps else ps)"

text \<open>A call that, when it completes, leaves the builder in its default form; and an
  assignment that does not raise: the key is an own property, or the prototype chain
  has no property of that name that cannot be written.\<close>

definition resets :: "'a result \<times> 'db model \<Rightarrow> bool" where
  "resets r = (completes r \<longrightarrow> default_form (snd r))"


section \<open>Lemmas\<close>

lemma set_prop_twice: "set_prop k w (set_prop k v ps) = set_prop k w ps"
  by (induction ps) auto

lemma get_prop_set_prop:
  "get_prop (set_prop k v ps) k' = (if k' = k then Some v else get_prop ps k')"
  by (induction ps) (auto split: if_splits)

lemma hasOwnProperty_set_prop:
  "hasOwnProperty (set_prop k v ps) k' = (k' = k \<or> hasOwnProperty ps k')"
  by (induction ps) (auto split: if_splits)

lemma hasOwnProperty_get_prop: "hasOwnProperty ps k = (get_prop ps k \<noteq> None)"
  by (induction ps) (auto split: if_splits)

lemma get_prop_absent: "\<not> hasOwnProperty ps k \<Longrightarrow> get_prop ps k = None"
  by (simp add: hasOwnProperty_get_prop)

lemma get_prop_fill:
  "get_prop (fill c k v ps) k' =
     (if k' = k \<and> c \<and> \<not> hasOwnProperty ps k then Some v else get_prop ps k')"
  by (simp add: fill_def get_prop_set_prop)

lemma hasOwnProperty_fill:
  "hasOwnProperty (fill c k v ps) k' = (hasOwnProperty ps k' \<or> (k' = k \<and> c))"
  by (auto simp: fill_def hasOwnProperty_set_prop)

lemma completes_try_catch: "completes (try_catch r h) = completes r"
  by (cases r) (auto simp: completes_def try_catch_def split: sum.splits)

lemma snd_try_catch: "snd (try_catch r h) = snd r"
  by (cases r) (auto simp: try_catch_def split: sum.splits)

lemma busy_eval:
  "busy = (initial mem_table [user_unique])
     \<lparr>conditions := Object ObjectPrototype [(''name'', JStr ''A'')]\<rparr>"
  by (simp add: busy_def where'_def assign_def initial_def empty_object_def)

lemma fields_clear:
  "builder_fields (clear b) =
     (empty_object, JArr [], JArr [], empty_object, JNull, JNull, JBool False)"
  by (simp add: builder_fields_def clear_def)

lemma default_clear: "default_form (clear b)"
  by (simp add: default_form_def fields_clear)

lemma resets_raise: "resets (Inl e, s)"
  by (simp add: resets_def completes_def)

lemma resets_clear: "resets (Inr v, clear s)"
  by (simp add: resets_def default_clear)

lemma resets_and_then: "(\<And>s. resets (f s)) \<Longrightarrow> resets (and_then r f)"
  by (cases r) (auto simp: resets_def and_then_def completes_def split: sum.splits)

lemma resets_try_catch: "resets r \<Longrightarrow> resets (try_catch r h)"
  by (simp add: resets_def completes_try_catch snd_try_catch)

lemma resets_case_sum:
  "(\<And>e. resets (f e)) \<Longrightarrow> (\<And>v. resets (g v)) \<Longrightarrow> resets (case_sum f g x)"
  by (cases x) simp_all

lemma resets_case_prod: "(\<And>x y. resets (f x y)) \<Longrightarrow> resets (case_prod f p)"
  by (cases p) simp

lemma resets_case_call:
  "(\<And>v. resets (f v)) \<Longrightarrow> (\<And>e. resets (g e)) \<Longrightarrow> (\<And>e. resets (h e)) \<Longrightarrow>
     resets (case_call f g h c)"
  by (cases c) simp_all

lemma resets_if: "resets x \<Longrightarrow> resets y \<Longrightarrow> resets (if c then x else y)"
  by simp

lemmas resets_intros =
  resets_case_sum resets_case_prod resets_case_call resets_if resets_try_catch
  resets_and_then resets_raise resets_clear

lemma get_resets: "resets (get rt cols c b)"
  unfolding get_def Let_def by (intro resets_intros)

lemma getWhere_resets: "resets (getWhere rt c b)"
  unfolding getWhere_def Let_def by (intro resets_intros)

lemma first_resets: "resets (first rt b)"
  unfolding first_def by (intro resets_intros)

lemma exists_resets: "resets (exists rt c b)"
  unfolding exists_def Let_def by (intro resets_intros)

lemma update_resets: "resets (update rt p c b)"
  unfolding update_def Let_def by (intro resets_intros)

lemma delete_resets: "resets (delete rt c b)"
  unfolding delete_def Let_def by (intro resets_intros)

lemma find_fields:
  "builder_fields (snd (find' i b)) =
     (if completes (find' i b)
      then (conditions b, attributes b, orders b, options b, limitValue b, offsetValue b,
            JBool False)
      else builder_fields b)"
  by (auto simp: completes_def find'_def driver_def builder_fields_def resetThrowError_def
           split: sum.splits prod.splits)

lemma getOrCreate_fields:
  "builder_fields (snd (getOrCreate sf data b)) =
     (if completes (getOrCreate sf data b)
      then (conditions b, attributes b, orders b, options b, limitValue b, offsetValue b,
            JBool False)
      else builder_fields b)"
  by (auto simp: completes_def getOrCreate_def driver_def builder_fields_def
                 resetThrowError_def inspect_def Let_def
           split: sum.splits prod.splits)

lemma create_fields: "builder_fields (snd (create data b)) = builder_fields b"
  by (auto simp: create_def driver_def builder_fields_def inspect_def Let_def
           split: sum.splits prod.splits)

lemma insert_fields: "builder_fields (snd (insert' data b)) = builder_fields b"
  by (auto simp: insert'_def driver_def builder_fields_def inspect_def Let_def
           split: sum.splits prod.splits)

lemma truncate_fields: "builder_fields (snd (truncate b)) = builder_fields b"
  by (auto simp: truncate_def driver_def builder_fields_def
           split: sum.splits prod.splits)

lemma assign_plain:
  "prototype ob = ObjectPrototype \<Longrightarrow> k \<noteq> ''__proto__'' \<Longrightarrow>
     assign rt k v ob = Inr (Object ObjectPrototype (set_prop k v (own ob)))"
  by (simp add: assign_def)

lemma plain_object: "prototype ob = ObjectPrototype \<Longrightarrow> Object ObjectPrototype (own ob) = ob"
  by (cases ob) simp

lemma lacks_option_builtin:
  "prototype (options b) = ObjectPrototype \<Longrightarrow>
   \<not> hasOwnProperty (own (options b)) ''hasOwnProperty'' \<Longrightarrow>
     lacks_option rt k b = (Inr (\<not> hasOwnProperty (own (options b)) k), b)"
  by (simp add: lacks_option_def hasOwnProperty_method_def get_prop_absent)

lemma unless_defined_fill:
  assumes "prototype (options b) = ObjectPrototype"
    and "\<not> hasOwnProperty (own (options b)) ''hasOwnProperty''"
    and "k \<noteq> ''__proto__''"
    and "guard b = Inr c"
  shows "unless_defined rt guard k v b =
     (Inr (), b\<lparr>options := Object ObjectPrototype (fill c k (v b) (own (options b)))\<rparr>)"
  using assms
  by (simp add: unless_defined_def lacks_option_builtin assign_option_def assign_plain
      fill_def plain_object)

lemma buildOptions_fill:
  assumes p: "prototype (options b) = ObjectPrototype"
    and h: "\<not> hasOwnProperty (own (options b)) ''hasOwnProperty''"
    and a: "attributes b = JArr as"
    and o: "orders b = JArr os"
  shows "buildOptions rt b =
     (Inr (),
      b\<lparr>options := Object ObjectPrototype
         (fill (offsetValue b \<noteq> JNull) ''offset'' (offsetValue b)
            (fill (limitValue b \<noteq> JNull) ''limit'' (limitValue b)
               (fill (os \<noteq> []) ''order'' (JArr os)
                  (fill (as \<noteq> []) ''attributes'' (JArr as)
                     (fill True ''where'' (JObj (own (conditions b))) (own (options b))))))) \<rparr>)"
proof -
  define o1 where "o1 = fill True ''where'' (JObj (own (conditions b))) (own (options b))"
  define o2 where "o2 = fill (as \<noteq> []) ''attributes'' (JArr as) o1"
  define o3 where "o3 = fill (os \<noteq> []) ''order'' (JArr os) o2"
  define o4 where "o4 = fill (limitValue b \<noteq> JNull) ''limit'' (limitValue b) o3"
  define b1 where "b1 = b\<lparr>options := Object ObjectPrototype o1\<rparr>"
  define b2 where "b2 = b\<lparr>options := Object ObjectPrototype o2\<rparr>"
  define b3 where "b3 = b\<lparr>options := Object ObjectPrototype o3\<rparr>"
  define b4 where "b4 = b\<lparr>options := Object ObjectPrototype o4\<rparr>"
  have h1: "\<not> hasOwnProperty o1 ''hasOwnProperty''"
    using h by (simp add: o1_def hasOwnProperty_fill)
  have h2: "\<not> hasOwnProperty o2 ''hasOwnProperty''"
    using h1 by (simp add: o2_def hasOwnProperty_fill)
  have h3: "\<not> hasOwnProperty o3 ''hasOwnProperty''"
    using h2 by (simp add: o3_def hasOwnProperty_fill)
  have h4: "\<not> hasOwnProperty o4 ''hasOwnProperty''"
    using h3 by (simp add: o4_def hasOwnProperty_fill)
  have s1: "unless_defined rt (\<lambda>m. Inr True) ''where'' (\<lambda>m. JObj (own (conditions m))) b
      = (Inr (), b1)"
    using unless_defined_fill [OF p h, of "''where''" "\<lambda>m. Inr True" True rt
        "\<lambda>m. JObj (own (conditions m))"]
    by (simp add: b1_def o1_def)
  have s2: "unless_defined rt (\<lambda>m. length_positive rt (attributes m)) ''attributes''
      attributes b1 = (Inr (), b2)"
    using unless_defined_fill [of b1 "''attributes''" "\<lambda>m. length_positive rt (attributes m)"
        "as \<noteq> []" rt attributes] h1 a
    by (simp add: b1_def b2_def o2_def length_positive_def)
  have s3: "unless_defined rt (\<lambda>m. length_positive rt (orders m)) ''order'' orders b2
      = (Inr (), b3)"
    using unless_defined_fill [of b2 "''order''" "\<lambda>m. length_positive rt (orders m)"
        "os \<noteq> []" rt orders] h2 o
    by (simp add: b2_def b3_def o3_def length_positive_def)
  have s4: "unless_defined rt (\<lambda>m. Inr (limitValue m \<noteq> JNull)) ''limit'' limitValue b3
      = (Inr (), b4)"
    using unless_defined_fill [of b3 "''limit''" "\<lambda>m. Inr (limitValue m \<noteq> JNull)"
        "limitValue b \<noteq> JNull" rt limitValue] h3
    by (simp add: b3_def b4_def o4_def)
  have s5: "unless_defined rt (\<lambda>m. Inr (offsetValue m \<noteq> JNull)) ''offset'' offsetValue b4
      = (Inr (), b\<lparr>options := Object ObjectPrototype
           (fill (offsetValue b \<noteq> JNull) ''offset'' (offsetValue b) o4)\<rparr>)"
    using unless_defined_fill [of b4 "''offset''" "\<lambda>m. Inr (offsetValue m \<noteq> JNull)"
        "offsetValue b \<noteq> JNull" rt offsetValue] h4
    by (simp add: b4_def)
  show ?thesis
    unfolding buildOptions_def
    by (simp add: and_then_def s1 s2 s3 s4 s5)
      (simp add: o4_def o3_def o2_def o1_def)
qed


lemma where_pair_plain:
  assumes "prototype (conditions b) = ObjectPrototype" "a \<noteq> ''__proto__''" "c \<noteq> ''__proto__''"
  shows "where' rt (JObj (object_literal [(a, v), (c, d)])) x b =
       (Inr (), b\<lparr>conditions :=
          Object ObjectPrototype (set_prop c d (set_prop a v (own (conditions b))))\<rparr>)"
  using assms
  by (simp add: where'_def Object_assign_def object_literal_def assign_plain set_prop_twice)

lemma first_no_ReadError: "fst (first rt b) = Inl e \<Longrightarrow> cls e \<noteq> ReadError"
  by (cases "and_then (buildOptions rt b)
          (\<lambda>b1. case driver (t_findOne (table b1) (JObj (own (options b1)))) b1 of
                   (c, b2) \<Rightarrow>
                     (case awaited c of
                        Inl error \<Rightarrow> (Inl error, b2)
                      | Inr item \<Rightarrow>
                          if \<not> truthy item \<and> truthy (throwError b2)
                          then (Inl (JsError NotFoundError (ident b2 @ '' not found'')), b2)
                          else (Inr item, clear b2)))")
    (auto simp: first_def try_catch_def first_catch_def instanceof_def split: sum.splits if_splits)

lemma update_no_wrap:
  assumes "buildOptions rt b = (Inr (), b1)" and "fst (update rt p JUndefined b) = Inl e"
  shows "cls e = TypeError \<or>
     (\<exists>d. t_update (table b1) p (JObj (own (options b1))) (db b1) = (Rejected e, d))"
  using assms
  by (auto simp: update_def Let_def and_then_def dflt_def update_catch_def driver_def
           split: prod.splits call.splits)

lemma count_from_filter:
  "count_from n cs rows = n + int (length (filter (row_matches cs) rows))"
  by (induction rows arbitrary: n) auto

lemma phone_taken:
  "phone_is_free (initial mem_table [user_unique]) =
     (Returned (JBool False), (initial mem_table [user_unique])\<lparr>inspectValue := JNull\<rparr>)"
  by (simp add: phone_is_free_def exists_def where'_def assign_def and_then_def try_catch_def
      mustBeAn_def knownTypes_def inspect_def buildOptions_def unless_defined_def
      lacks_option_def hasOwnProperty_method_def assign_option_def length_positive_def
      driver_def initial_def empty_object_def mem_table_def dflt_def user_unique_def clear_def)

lemmas run_defs =
  and_then_def try_catch_def mustBeAn_def knownTypes_def inspect_def buildOptions_def
  unless_defined_def lacks_option_def hasOwnProperty_method_def assign_option_def assign_def
  length_positive_def driver_def initial_def empty_object_def mem_table_def dflt_def Let_def





section \<open>The claims\<close>

text \<open>
  C1, as the code has it. After \<^verbatim>\<open>get\<close>, \<^verbatim>\<open>getWhere\<close>, \<^verbatim>\<open>first\<close>, \<^verbatim>\<open>exists\<close>,
  \<^verbatim>\<open>update\<close> or \<^verbatim>\<open>delete\<close> completes without throwing, the builder state is in
  its default form: conditions and options empty, attributes and orders empty, limit and
  offset null, throwError false. After \<^verbatim>\<open>find\<close> or \<^verbatim>\<open>getOrCreate\<close> completes
  without throwing, throwError is false and the other six fields are as before the call.
  \<^verbatim>\<open>create\<close>, \<^verbatim>\<open>insert\<close> and \<^verbatim>\<open>truncate\<close> leave the seven fields as they were.
\<close>

theorem C1_state_after_terminal:
  "(completes (get rt cols c b) \<longrightarrow> default_form (snd (get rt cols c b))) \<and>
   (completes (getWhere rt c b) \<longrightarrow> default_form (snd (getWhere rt c b))) \<and>
   (completes (first rt b) \<longrightarrow> default_form (snd (first rt b))) \<and>
   (completes (exists rt c b) \<longrightarrow> default_form (snd (exists rt c b))) \<and>
   (completes (update rt p c b) \<longrightarrow> default_form (snd (update rt p c b))) \<and>
   (completes (delete rt c b) \<longrightarrow> default_form (snd (delete rt c b))) \<and>
   (completes (find' i b) \<longrightarrow>
      builder_fields (snd (find' i b)) =
        (conditions b, attributes b, orders b, options b, limitValue b, offsetValue b,
         JBool False)) \<and>
   (completes (getOrCreate sf data b) \<longrightarrow>
      builder_fields (snd (getOrCreate sf data b)) =
        (conditions b, attributes b, orders b, options b, limitValue b, offsetValue b,
         JBool False)) \<and>
   builder_fields (snd (create data b)) = builder_fields b \<and>
   builder_fields (snd (insert' data b)) = builder_fields b \<and>
   builder_fields (snd (truncate b)) = builder_fields b"
  using get_resets [of rt cols c b] getWhere_resets [of rt c b] first_resets [of rt b]
    exists_resets [of rt c b] update_resets [of rt p c b] delete_resets [of rt c b]
    find_fields [of i b] getOrCreate_fields [of sf data b]
  by (simp add: resets_def create_fields insert_fields truncate_fields)

text \<open>The eight operations complete on the builder \<open>busy\<close>, and leave it as C1 says.\<close>

theorem C1_state_after_terminal_witness:
  "completes (get plain_runtime JUndefined JUndefined busy) \<and>
   default_form (snd (get plain_runtime JUndefined JUndefined busy)) \<and>
   completes (getWhere plain_runtime JUndefined busy) \<and>
   default_form (snd (getWhere plain_runtime JUndefined busy)) \<and>
   completes (first plain_runtime busy) \<and> default_form (snd (first plain_runtime busy)) \<and>
   completes (exists plain_runtime JUndefined busy) \<and>
   default_form (snd (exists plain_runtime JUndefined busy)) \<and>
   completes (update plain_runtime user_unique JUndefined busy) \<and>
   default_form (snd (update plain_runtime user_unique JUndefined busy)) \<and>
   completes (delete plain_runtime JUndefined busy) \<and>
   default_form (snd (delete plain_runtime JUndefined busy)) \<and>
   completes (find' (num 1) busy) \<and>
   builder_fields (snd (find' (num 1) busy)) =
     (Object ObjectPrototype [(''name'', JStr ''A'')], JArr [], JArr [], empty_object,
      JNull, JNull, JBool False) \<and>
   completes (getOrCreate (\<lambda>v. Inr ''{}'') user_unique busy) \<and>
   builder_fields (snd (getOrCreate (\<lambda>v. Inr ''{}'') user_unique busy)) =
     (Object ObjectPrototype [(''name'', JStr ''A'')], JArr [], JArr [], empty_object,
      JNull, JNull, JBool False)"
proof -
  have g: "completes (get plain_runtime JUndefined JUndefined busy)"
    by (simp add: busy_eval completes_def get_def run_defs)
  have gw: "completes (getWhere plain_runtime JUndefined busy)"
    by (simp add: busy_eval completes_def getWhere_def run_defs)
  have fi: "completes (first plain_runtime busy)"
    by (simp add: busy_eval completes_def first_def run_defs user_unique_def)
  have ex: "completes (exists plain_runtime JUndefined busy)"
    by (simp add: busy_eval completes_def exists_def run_defs)
  have up: "completes (update plain_runtime user_unique JUndefined busy)"
    by (simp add: busy_eval completes_def update_def run_defs)
  have de: "completes (delete plain_runtime JUndefined busy)"
    by (simp add: busy_eval completes_def delete_def run_defs)
  have fd: "completes (find' (num 1) busy)"
    by (simp add: busy_eval completes_def find'_def driver_def initial_def mem_table_def
        user_unique_def)
  have gc: "completes (getOrCreate (\<lambda>v. Inr ''{}'') user_unique busy)"
    by (simp add: busy_eval completes_def getOrCreate_def mustBeAn_def knownTypes_def
        inspect_def driver_def initial_def mem_table_def user_unique_def)
  have fs: "conditions busy = Object ObjectPrototype [(''name'', JStr ''A'')]"
    "attributes busy = JArr []" "orders busy = JArr []" "options busy = empty_object"
    "limitValue busy = JNull" "offsetValue busy = JNull"
    by (simp_all add: busy_eval initial_def)
  show ?thesis
    using g gw fi ex up de fd gc fs
      C1_state_after_terminal [of plain_runtime JUndefined JUndefined busy user_unique
        "num 1" "\<lambda>v. Inr ''{}''" user_unique]
    by simp
qed

text \<open>
  C1 as the spec states it fails at \<^verbatim>\<open>create\<close>: chained after
  \<^verbatim>\<open>where("name", "A")\<close> it completes and the condition is still there.
\<close>

theorem C1_create_keeps_state_counterexample:
  "completes (create user_unique busy) \<and> \<not> default_form (snd (create user_unique busy))"
  by (simp add: busy_eval completes_def create_def mustBeAn_def knownTypes_def inspect_def
      driver_def initial_def mem_table_def user_unique_def default_form_def
      builder_fields_def empty_object_def)

text \<open>
  C2, evaluated where it fails. When the driver's \<^verbatim>\<open>update\<close> returns a promise that
  is rejected, \<^verbatim>\<open>update\<close> is rejected with the driver's own error, unwrapped; when the
  call throws at once, \<^verbatim>\<open>update\<close> raises a TypeError. Neither is an UpdateError,
  and by \<open>update_no_wrap\<close> nothing else comes out of the \<^verbatim>\<open>try\<close> of \<^verbatim>\<open>update\<close>.
\<close>

theorem C2_update_failure_escapes:
  "fst (update plain_runtime user_unique JUndefined (initial (rejecting db_error) [])) =
     Inl db_error \<and>
   fst (update plain_runtime user_unique JUndefined (initial (throwing db_error) [])) =
     Inl (JsError TypeError
            (''Class constructor UpdateError cannot be invoked without '' @ [CHR 0x27]
             @ ''new'' @ [CHR 0x27]))"
  by (simp add: update_def update_catch_def quoted_def run_defs rejecting_def throwing_def
      db_error_def)

text \<open>
  C3. When the driver answers null for the key, \<^verbatim>\<open>find\<close> returns null if the
  throwError flag is false, and right after \<^verbatim>\<open>withError(true)\<close> it raises a
  NotFoundError, not a ReadError.
\<close>

theorem C3_find_missing:
  assumes "t_findByPk (table b) i (db b) = (Returned JNull, d)"
  shows "(throwError b = JBool False \<longrightarrow> fst (find' i b) = Inr JNull) \<and>
     fst (find' i (withError (JBool True) b)) =
       Inl (JsError NotFoundError (ident b @ '' not found with id '' @ ToString i))"
  using assms
  by (simp add: find'_def driver_def withError_def dflt_def find_catch_def instanceof_def)

text \<open>The key 99999 of the test, on the empty table.\<close>

theorem C3_find_missing_witness:
  "t_findByPk (table (initial mem_table [])) (num 99999) (db (initial mem_table [])) =
     (Returned JNull, []) \<and>
   throwError (initial mem_table []) = JBool False \<and>
   fst (find' (num 99999) (initial mem_table [])) = Inr JNull \<and>
   fst (find' (num 99999) (withError (JBool True) (initial mem_table []))) =
     Inl (JsError NotFoundError ''users not found with id 99999'')"
proof -
  have h: "t_findByPk (table (initial mem_table [])) (num 99999) (db (initial mem_table []))
      = (Returned JNull, [])"
    by (simp add: initial_def mem_table_def)
  have t: "throwError (initial mem_table []) = JBool False"
    by (simp add: initial_def)
  have s: "ident (initial mem_table []) @ '' not found with id '' @ ToString (num 99999)
      = ''users not found with id 99999''"
    by (simp add: initial_def mem_table_def num_def int_text_def digits.simps)
  show ?thesis
    using C3_find_missing [OF h] h t s by simp
qed

text \<open>
  C4, as the code has it. \<^verbatim>\<open>find\<close> and \<^verbatim>\<open>getOrCreate\<close> set the throwError flag
  to false when they return; when they raise, the flag keeps the value it had before the
  call.
\<close>

theorem C4_flag_after_find_getOrCreate:
  "throwError (snd (find' i b)) =
     (if completes (find' i b) then JBool False else throwError b) \<and>
   throwError (snd (getOrCreate sf data b)) =
     (if completes (getOrCreate sf data b) then JBool False else throwError b)"
  using find_fields [of i b] getOrCreate_fields [of sf data b]
  by (simp add: builder_fields_def split: if_splits)

text \<open>
  C4 as the spec states it fails: after \<^verbatim>\<open>withError(true).find(99999)\<close> has raised
  its NotFoundError, and after \<^verbatim>\<open>withError(true).getOrCreate(data)\<close> has raised its
  CreateError for a row that exists, the flag is still true.
\<close>

theorem C4_flag_stays_counterexample:
  "fst (find' (num 99999) (withError (JBool True) (initial mem_table []))) =
     Inl (JsError NotFoundError ''users not found with id 99999'') \<and>
   throwError (snd (find' (num 99999) (withError (JBool True) (initial mem_table []))))
     \<noteq> JBool False \<and>
   fst (getOrCreate (\<lambda>v. Inr ''{}'') user_unique
          (withError (JBool True) (initial mem_table [user_unique]))) =
     Inl (JsError CreateError ''users already exists with data {}'') \<and>
   throwError (snd (getOrCreate (\<lambda>v. Inr ''{}'') user_unique
          (withError (JBool True) (initial mem_table [user_unique])))) \<noteq> JBool False"
  by (simp add: find'_def getOrCreate_def getOrCreate_catch_def mustBeAn_def knownTypes_def
      inspect_def driver_def withError_def dflt_def find_catch_def instanceof_def
      initial_def mem_table_def num_def int_text_def digits.simps user_unique_def)

text \<open>
  C5, as the code has it. On a builder whose overlay has the prototype it was made
  with and no own property \<^verbatim>\<open>hasOwnProperty\<close>, and whose projection and order
  fields are arrays, \<^verbatim>\<open>buildOptions\<close> raises nothing, and in the options it leaves a
  key of the overlay keeps its value. Where the overlay has none: \<^verbatim>\<open>where\<close> is the
  accumulated conditions; \<^verbatim>\<open>attributes\<close> and \<^verbatim>\<open>order\<close> are the projection and the
  order list when these are not empty, and absent otherwise; \<^verbatim>\<open>limit\<close> and
  \<^verbatim>\<open>offset\<close> are the limit and the offset when these are not null, and absent
  otherwise. No other key and no other field of the builder changes.
\<close>

theorem C5_buildOptions:
  assumes "prototype (options b) = ObjectPrototype"
    and "\<not> hasOwnProperty (own (options b)) ''hasOwnProperty''"
    and "attributes b = JArr as"
    and "orders b = JArr os"
  shows "fst (buildOptions rt b) = Inr () \<and>
   (hasOwnProperty (own (options b)) k \<longrightarrow>
      get_prop (own (options (snd (buildOptions rt b)))) k = get_prop (own (options b)) k) \<and>
   (\<not> hasOwnProperty (own (options b)) ''where'' \<longrightarrow>
      get_prop (own (options (snd (buildOptions rt b)))) ''where'' =
        Some (JObj (own (conditions b)))) \<and>
   (\<not> hasOwnProperty (own (options b)) ''attributes'' \<longrightarrow>
      get_prop (own (options (snd (buildOptions rt b)))) ''attributes'' =
        (if as \<noteq> [] then Some (JArr as) else None)) \<and>
   (\<not> hasOwnProperty (own (options b)) ''order'' \<longrightarrow>
      get_prop (own (options (snd (buildOptions rt b)))) ''order'' =
        (if os \<noteq> [] then Some (JArr os) else None)) \<and>
   (\<not> hasOwnProperty (own (options b)) ''limit'' \<longrightarrow>
      get_prop (own (options (snd (buildOptions rt b)))) ''limit'' =
        (if limitValue b \<noteq> JNull then Some (limitValue b) else None)) \<and>
   (\<not> hasOwnProperty (own (options b)) ''offset'' \<longrightarrow>
      get_prop (own (options (snd (buildOptions rt b)))) ''offset'' =
        (if offsetValue b \<noteq> JNull then Some (offsetValue b) else None)) \<and>
   (k \<notin> {''where'', ''attributes'', ''order'', ''limit'', ''offset''} \<longrightarrow>
      get_prop (own (options (snd (buildOptions rt b)))) k = get_prop (own (options b)) k) \<and>
   prototype (options (snd (buildOptions rt b))) = ObjectPrototype \<and>
   snd (buildOptions rt b) = b\<lparr>options := options (snd (buildOptions rt b))\<rparr>"
proof -
  note e = buildOptions_fill [OF assms, of rt]
  have 1: "hasOwnProperty (own (options b)) k \<Longrightarrow>
      get_prop (own (options (snd (buildOptions rt b)))) k = get_prop (own (options b)) k"
    by (auto simp: e get_prop_fill hasOwnProperty_fill)
  have 2: "\<not> hasOwnProperty (own (options b)) ''where'' \<Longrightarrow>
      get_prop (own (options (snd (buildOptions rt b)))) ''where'' =
        Some (JObj (own (conditions b)))"
    by (simp add: e get_prop_fill hasOwnProperty_fill)
  have 3: "\<not> hasOwnProperty (own (options b)) ''attributes'' \<Longrightarrow>
      get_prop (own (options (snd (buildOptions rt b)))) ''attributes'' =
        (if as \<noteq> [] then Some (JArr as) else None)"
    by (simp add: e get_prop_fill hasOwnProperty_fill get_prop_absent)
  have 4: "\<not> hasOwnProperty (own (options b)) ''order'' \<Longrightarrow>
      get_prop (own (options (snd (buildOptions rt b)))) ''order'' =
        (if os \<noteq> [] then Some (JArr os) else None)"
    by (simp add: e get_prop_fill hasOwnProperty_fill get_prop_absent)
  have 5: "\<not> hasOwnProperty (own (options b)) ''limit'' \<Longrightarrow>
      get_prop (own (options (snd (buildOptions rt b)))) ''limit'' =
        (if limitValue b \<noteq> JNull then Some (limitValue b) else None)"
    by (simp add: e get_prop_fill hasOwnProperty_fill get_prop_absent)
  have 6: "\<not> hasOwnProperty (own (options b)) ''offset'' \<Longrightarrow>
      get_prop (own (options (snd (buildOptions rt b)))) ''offset'' =
        (if offsetValue b \<noteq> JNull then Some (offsetValue b) else None)"
    by (simp add: e get_prop_fill hasOwnProperty_fill get_prop_absent)
  have 7: "k \<notin> {''where'', ''attributes'', ''order'', ''limit'', ''offset''} \<Longrightarrow>
      get_prop (own (options (snd (buildOptions rt b)))) k = get_prop (own (options b)) k"
    by (simp add: e get_prop_fill)
  have 8: "fst (buildOptions rt b) = Inr ()"
    "prototype (options (snd (buildOptions rt b))) = ObjectPrototype"
    "snd (buildOptions rt b) = b\<lparr>options := options (snd (buildOptions rt b))\<rparr>"
    by (simp_all add: e)
  from 1 2 3 4 5 6 7 8 show ?thesis
    by blast
qed

text \<open>With the overlay \<^verbatim>\<open>{group: "name"}\<close> the limit 10 is applied; with the overlay
  \<^verbatim>\<open>{limit: 1}\<close> it is not.\<close>

theorem C5_buildOptions_witness:
  "prototype (options paged) = ObjectPrototype \<and>
   \<not> hasOwnProperty (own (options paged)) ''hasOwnProperty'' \<and>
   attributes paged = JArr [] \<and> orders paged = JArr [] \<and>
   hasOwnProperty (own (options paged)) ''group'' \<and>
   \<not> hasOwnProperty (own (options paged)) ''where'' \<and>
   \<not> hasOwnProperty (own (options paged)) ''attributes'' \<and>
   \<not> hasOwnProperty (own (options paged)) ''order'' \<and>
   \<not> hasOwnProperty (own (options paged)) ''limit'' \<and>
   \<not> hasOwnProperty (own (options paged)) ''offset'' \<and>
   ''group'' \<notin> {''where'', ''attributes'', ''order'', ''limit'', ''offset''} \<and>
   fst (buildOptions plain_runtime paged) = Inr () \<and>
   get_prop (own (options (snd (buildOptions plain_runtime paged)))) ''group'' =
     Some (JStr ''name'') \<and>
   get_prop (own (options (snd (buildOptions plain_runtime paged)))) ''where'' =
     Some (JObj [(''name'', JStr ''A'')]) \<and>
   get_prop (own (options (snd (buildOptions plain_runtime paged)))) ''attributes'' = None \<and>
   get_prop (own (options (snd (buildOptions plain_runtime paged)))) ''order'' = None \<and>
   get_prop (own (options (snd (buildOptions plain_runtime paged)))) ''limit'' =
     Some (num 10) \<and>
   get_prop (own (options (snd (buildOptions plain_runtime paged)))) ''offset'' = None \<and>
   hasOwnProperty (own (options capped)) ''limit'' \<and>
   get_prop (own (options (snd (buildOptions plain_runtime capped)))) ''limit'' = Some (num 1)"
proof -
  have p: "options paged = Object ObjectPrototype [(''group'', JStr ''name'')]"
    "conditions paged = Object ObjectPrototype [(''name'', JStr ''A'')]"
    "attributes paged = JArr []" "orders paged = JArr []" "limitValue paged = num 10"
    "offsetValue paged = JNull"
    by (simp_all add: paged_def busy_eval initial_def)
  have c: "options capped = Object ObjectPrototype [(''limit'', num 1)]"
    "attributes capped = JArr []" "orders capped = JArr []"
    by (simp_all add: capped_def busy_eval initial_def)
  have n: "num 10 \<noteq> JNull"
    by (simp add: num_def)
  show ?thesis
    using C5_buildOptions [of paged "[]" "[]" plain_runtime "''group''"]
      C5_buildOptions [of capped "[]" "[]" plain_runtime "''limit''"]
    by (simp add: p c n)
qed

text \<open>
  C5 as the spec states it, for every builder state, fails. After
  \<^verbatim>\<open>option("hasOwnProperty", 1)\<close> and after \<^verbatim>\<open>option("__proto__", null)\<close> the
  overlay defines no \<^verbatim>\<open>where\<close>, and \<^verbatim>\<open>buildOptions\<close> raises a TypeError at its
  first test and sets none; after \<^verbatim>\<open>needColumns(null)\<close> it raises at the length of
  the projection.
\<close>

theorem C5_buildOptions_raises_counterexample:
  "\<not> hasOwnProperty (own (options shadowed)) ''where'' \<and>
   fst (buildOptions plain_runtime shadowed) =
     Inl (JsError TypeError ''this.options.hasOwnProperty is not a function'') \<and>
   get_prop (own (options (snd (buildOptions plain_runtime shadowed)))) ''where'' = None \<and>
   fst (buildOptions plain_runtime bare) =
     Inl (JsError TypeError ''this.options.hasOwnProperty is not a function'') \<and>
   get_prop (own (options (snd (buildOptions plain_runtime bare)))) ''where'' = None \<and>
   fst (buildOptions plain_runtime no_columns) =
     Inl (JsError TypeError
            (''Cannot read properties of null (reading '' @ [CHR 0x27] @ ''length''
             @ [CHR 0x27] @ '')''))"
  by (simp add: shadowed_def bare_def no_columns_def option'_def needColumns_def num_def
      quoted_def run_defs)

text \<open>
  C6, evaluated where it fails. When the driver's \<^verbatim>\<open>findOne\<close> is rejected with an
  error that is no NotFoundError, \<^verbatim>\<open>first\<close> raises a ReferenceError for the
  undeclared \<^verbatim>\<open>id\<close> of its \<^verbatim>\<open>catch\<close>, not a ReadError; by \<open>first_no_ReadError\<close>
  it never raises one. Its own NotFoundError does pass through unchanged.
\<close>

theorem C6_first_failure_is_ReferenceError:
  "fst (first plain_runtime (initial (rejecting db_error) [])) =
     Inl (JsError ReferenceError ''id is not defined'') \<and>
   fst (first plain_runtime (withError (JBool True) (initial mem_table []))) =
     Inl (JsError NotFoundError ''users not found'')"
  by (simp add: first_def first_catch_def run_defs rejecting_def db_error_def
      instanceof_def withError_def)

text \<open>
  C7. \<^verbatim>\<open>count\<close> answers with the number of rows that match the conditions, and
  without conditions with the number of all rows of the table.
\<close>

theorem C7_count:
  "count None rows = int (length rows) \<and>
   count (Some cs) rows = int (length (filter (row_matches cs) rows))"
  by (simp add: count_def count_from_filter)




text \<open>
  C9. When the callback resolves to false, \<^verbatim>\<open>verify\<close> raises the ModelError
  "Unverified state occured"; the chain \<^verbatim>\<open>(await m.verify(cb)).create(data)\<close> raises
  it too, and the database is as the callback left it: no row is created.
\<close>

theorem C9_verify_false:
  assumes "callback b = (Returned (JBool False), b1)"
  shows "verify callback b =
       (Inl (JsError ModelError ''Unverified state occured''), inspect (JBool False) b1) \<and>
     and_then (verify callback b) (create data) =
       (Inl (JsError ModelError ''Unverified state occured''), inspect (JBool False) b1) \<and>
     db (snd (and_then (verify callback b) (create data))) = db b1"
  using assms
  by (simp add: verify_def and_then_def mustBeAn_def knownTypes_def inspect_def)

text \<open>The test of \<^verbatim>\<open>verify\<close>: the phone is taken, and the table keeps its one row.\<close>

theorem C9_verify_false_witness:
  "phone_is_free (initial mem_table [user_unique]) =
     (Returned (JBool False), (initial mem_table [user_unique])\<lparr>inspectValue := JNull\<rparr>) \<and>
   fst (and_then (verify phone_is_free (initial mem_table [user_unique])) (create user_unique))
     = Inl (JsError ModelError ''Unverified state occured'') \<and>
   db (snd (and_then (verify phone_is_free (initial mem_table [user_unique]))
        (create user_unique))) = [user_unique]"
proof -
  note t = C9_verify_false [of phone_is_free "initial mem_table [user_unique]" _ user_unique,
      OF phone_taken]
  have d: "db ((initial mem_table [user_unique])\<lparr>inspectValue := JNull\<rparr>) = [user_unique]"
    by (simp add: initial_def)
  from t have a: "and_then (verify phone_is_free (initial mem_table [user_unique]))
      (create user_unique) =
      (Inl (JsError ModelError ''Unverified state occured''),
       inspect (JBool False) ((initial mem_table [user_unique])\<lparr>inspectValue := JNull\<rparr>))"
    by blast
  have r: "fst (and_then (verify phone_is_free (initial mem_table [user_unique]))
      (create user_unique)) = Inl (JsError ModelError ''Unverified state occured'')"
    by (simp add: a)
  from t have "db (snd (and_then (verify phone_is_free (initial mem_table [user_unique]))
      (create user_unique))) = db ((initial mem_table [user_unique])\<lparr>inspectValue := JNull\<rparr>)"
    by blast
  from this d have s: "db (snd (and_then (verify phone_is_free (initial mem_table [user_unique]))
      (create user_unique))) = [user_unique]"
    by (rule trans)
  from phone_taken r s show ?thesis
    by blast
qed

text \<open>
  C10. A first argument whose \<^verbatim>\<open>typeof\<close> is neither "string" nor "object" makes
  \<^verbatim>\<open>where\<close> return the builder as it was: nothing is raised and no field changes.
\<close>

theorem C10_where_other_type:
  "typeof x \<noteq> ''string'' \<Longrightarrow> typeof x \<noteq> ''object'' \<Longrightarrow> where' rt x v b = (Inr (), b)"
  by (simp add: where'_def)

text \<open>The number 5, on a builder that has a condition.\<close>

theorem C10_where_other_type_witness:
  "typeof (num 5) \<noteq> ''string'' \<and> typeof (num 5) \<noteq> ''object'' \<and>
   where' plain_runtime (num 5) (JStr ''A'') busy = (Inr (), busy)"
  using C10_where_other_type [of "num 5" plain_runtime "JStr ''A''" busy]
  by (simp add: num_def)

end
